theory Spec2Isabelle
  imports Complex_Main
begin

section \<open>Data model (types.ts)\<close>

text \<open>
  The enumerations of \<^verbatim>\<open>types.ts\<close>. JavaScript numbers that hold question indices,
  option indices, seconds and scores are integers in every path of the program and are
  modelled as \<^typ>\<open>int\<close>. The fields \<^verbatim>\<open>id\<close> and \<^verbatim>\<open>text\<close> of a question are
  \<open>qid\<close> and \<open>qtext\<close> here, and the \<^verbatim>\<open>language\<close> cell of the application is
  \<open>appLanguage\<close>, since the plain names are taken.
\<close>

datatype DifficultyLevel = FOUNDATION | INTERMEDIATE | FINAL

datatype Subject =
  ACCOUNTING | LAW | TAXATION | AUDITING | FINANCIAL_MANAGEMENT | IT_SM | ADVANCED_ACCOUNTING

datatype Language = ENGLISH | MALAYALAM

record Question =
  qid :: string
  qtext :: string
  options :: "string list"
  correctOptionIndex :: int
  explanation :: string

record ExamConfig =
  subject :: Subject
  level :: DifficultyLevel
  questionCount :: int
  durationMinutes :: int
  topic :: "string option"
  language :: Language

datatype Status = Idle | Loading | Active | Finished | Error

text \<open>
  \<^verbatim>\<open>answers: Record<number, number>\<close> and \<^verbatim>\<open>flagged: Record<number, boolean>\<close> are
  objects used as dictionaries: a key that was never written reads as \<^verbatim>\<open>undefined\<close>,
  which is \<^const>\<open>None\<close> here.
\<close>

record ExamState =
  status :: Status
  questions :: "Question list"
  currentQuestionIndex :: int
  answers :: "int \<rightharpoonup> int"
  flagged :: "int \<rightharpoonup> bool"
  startTime :: "int option"
  timeRemaining :: int
  score :: int
  error :: "string option"

datatype AppMode = EXAM | CLASSES | PRACTICE

text \<open>The four \<^verbatim>\<open>useState\<close> cells of the \<^verbatim>\<open>App\<close> component.\<close>

record App =
  mode :: AppMode
  appLanguage :: Language
  examState :: ExamState
  config :: "ExamConfig option"

section \<open>Session engine (App.tsx)\<close>

definition initialState :: ExamState where
  "initialState =
     \<lparr> status = Idle, questions = [], currentQuestionIndex = 0, answers = Map.empty,
       flagged = Map.empty, startTime = None, timeRemaining = 0, score = 0, error = None \<rparr>"

text \<open>The initial values of the \<^verbatim>\<open>useState\<close> cells.\<close>

definition initialApp :: App where
  "initialApp = \<lparr>mode = EXAM, appLanguage = ENGLISH, examState = initialState, config = None\<rparr>"

text \<open>\<^verbatim>\<open>setExamState\<close> with an updater function: the new state is computed from the latest one.\<close>

definition setExamState :: "(ExamState \<Rightarrow> ExamState) \<Rightarrow> App \<Rightarrow> App" where
  "setExamState f a = a\<lparr>examState := f (examState a)\<rparr>"

text \<open>
  \<^verbatim>\<open>calculateScore\<close>: the body of the \<^verbatim>\<open>forEach\<close> callback runs once per question with
  its index; \<^verbatim>\<open>state.answers[idx] === q.correctOptionIndex\<close> is false when the entry is
  missing, since \<^verbatim>\<open>undefined\<close> is strictly equal to no number.
\<close>

fun forEach_score :: "(int \<rightharpoonup> int) \<Rightarrow> Question list \<Rightarrow> int \<Rightarrow> int \<Rightarrow> int" where
  "forEach_score ans [] idx sc = sc"
| "forEach_score ans (q # qs) idx sc =
     forEach_score ans qs (idx + 1)
       (if ans idx = Some (correctOptionIndex q) then sc + 1 else sc)"

definition calculateScore :: "ExamState \<Rightarrow> int" where
  "calculateScore state = forEach_score (answers state) (questions state) 0 0"

definition handleAnswer :: "int \<Rightarrow> int \<Rightarrow> App \<Rightarrow> App" where
  "handleAnswer questionIndex optionIndex =
     setExamState (\<lambda>prev. prev\<lparr>answers := (answers prev)(questionIndex \<mapsto> optionIndex)\<rparr>)"

text \<open>
  \<^verbatim>\<open>!prev.flagged[questionIndex]\<close>: negating \<^verbatim>\<open>undefined\<close> gives \<^verbatim>\<open>true\<close>.
\<close>

definition handleFlag :: "int \<Rightarrow> App \<Rightarrow> App" where
  "handleFlag questionIndex =
     setExamState (\<lambda>prev. prev\<lparr>flagged := (flagged prev)(questionIndex \<mapsto>
        (case flagged prev questionIndex of None \<Rightarrow> True | Some b \<Rightarrow> \<not> b))\<rparr>)"

definition handleNavigate :: "int \<Rightarrow> App \<Rightarrow> App" where
  "handleNavigate questionIndex =
     setExamState (\<lambda>prev. prev\<lparr>currentQuestionIndex := questionIndex\<rparr>)"

definition handleSubmit :: "App \<Rightarrow> App" where
  "handleSubmit =
     setExamState (\<lambda>prev. prev\<lparr>status := Finished, score := calculateScore prev\<rparr>)"

definition handleRestart :: "App \<Rightarrow> App" where
  "handleRestart a =
     a\<lparr>examState := initialState, config := None,
       mode := (if mode a = PRACTICE then CLASSES else mode a)\<rparr>"

text \<open>
  The timer effect. The interval is installed only while the rendered state has
  \<^verbatim>\<open>status === 'active' && timeRemaining > 0\<close>, and the effect's cleanup clears it as soon
  as \<^verbatim>\<open>status\<close> or \<^verbatim>\<open>timeRemaining\<close> changes. Each firing of the interval applies
  \<open>timerUpdater\<close> to the latest state. One tick of the clock is therefore the updater
  under the effect's condition; React's scheduling between a state change and the cleanup
  is not part of the model.
\<close>

definition timerInstalled :: "ExamState \<Rightarrow> bool" where
  "timerInstalled s \<longleftrightarrow> status s = Active \<and> timeRemaining s > 0"

definition timerUpdater :: "ExamState \<Rightarrow> ExamState" where
  "timerUpdater prev =
     (if timeRemaining prev \<le> 1
      then prev\<lparr>timeRemaining := 0, status := Finished, score := calculateScore prev\<rparr>
      else prev\<lparr>timeRemaining := timeRemaining prev - 1\<rparr>)"

definition tick :: "App \<Rightarrow> App" where
  "tick a = (if timerInstalled (examState a) then setExamState timerUpdater a else a)"

text \<open>
  \<^verbatim>\<open>startQuizGeneration\<close> is asynchronous, and other handlers and other requests can run
  while it waits. It is therefore two steps on the state. \<open>startQuizGeneration_begin\<close> is
  the part before the \<^verbatim>\<open>await\<close>. \<open>startQuizGeneration_settle\<close> is the part after it,
  applied to the state as it is when the request settles: the result of
  \<^verbatim>\<open>generateExamQuestions\<close> is either a thrown error (\<open>Inl\<close>) or the question list
  (\<open>Inr\<close>), and \<open>now\<close> is the value of \<^verbatim>\<open>Date.now()\<close>.
\<close>

definition startQuizGeneration_begin :: "ExamConfig \<Rightarrow> AppMode \<Rightarrow> App \<Rightarrow> App" where
  "startQuizGeneration_begin newConfig targetMode a =
     setExamState (\<lambda>prev. prev\<lparr>status := Loading\<rparr>)
       (a\<lparr>mode := targetMode, config := Some newConfig\<rparr>)"

definition startQuizGeneration_settle ::
    "ExamConfig \<Rightarrow> string + Question list \<Rightarrow> int \<Rightarrow> App \<Rightarrow> App" where
  "startQuizGeneration_settle newConfig result now =
     (case result of
        Inr qs \<Rightarrow>
          setExamState (\<lambda>_. initialState\<lparr>status := Active, questions := qs,
             timeRemaining := durationMinutes newConfig * 60, startTime := Some now\<rparr>)
      | Inl _ \<Rightarrow>
          setExamState (\<lambda>prev. prev\<lparr>status := Idle,
             error := Some ''Failed to generate exam. Please try again.''\<rparr>))"

subsection \<open>Which handlers a rendered screen receives\<close>

text \<open>
  \<^verbatim>\<open>renderContent\<close> chooses the screen from \<^verbatim>\<open>mode\<close>, \<^verbatim>\<open>examState.status\<close> and
  \<^verbatim>\<open>config\<close>; \<open>props\<close> lists the callbacks passed to that screen.
\<close>

datatype Screen =
  PracticeLoading | PracticeQuizScreen | ResultsScreen | Nothing
  | ClassesScreen | SetupScreen | ExamScreen

datatype Handler =
  OnAnswer | OnFlag | OnNavigate | OnSubmit | OnExit | OnRestart | OnStartExam | OnStartQuiz

definition renderContent :: "App \<Rightarrow> Screen" where
  "renderContent a =
     (if mode a = PRACTICE then
        (if status (examState a) = Loading then PracticeLoading
         else if status (examState a) = Active then PracticeQuizScreen
         else if status (examState a) = Finished \<and> config a \<noteq> None then ResultsScreen
         else Nothing)
      else if mode a = CLASSES then ClassesScreen
      else if status (examState a) = Idle \<or> status (examState a) = Loading then SetupScreen
      else if status (examState a) = Active then ExamScreen
      else if config a \<noteq> None then ResultsScreen
      else Nothing)"

fun props :: "Screen \<Rightarrow> Handler list" where
  "props PracticeQuizScreen = [OnAnswer, OnNavigate, OnSubmit, OnExit]"
| "props ExamScreen = [OnAnswer, OnFlag, OnNavigate, OnSubmit]"
| "props ResultsScreen = [OnRestart]"
| "props SetupScreen = [OnStartExam]"
| "props ClassesScreen = [OnStartQuiz]"
| "props PracticeLoading = []"
| "props Nothing = []"

text \<open>
  The indices the exam screen can pass to \<^verbatim>\<open>onNavigate\<close>: the Previous button
  (\<^verbatim>\<open>disabled\<close> when the current index is 0), the Next button (rendered only when the
  current question is not the last one) and the palette, one button per question. The
  practice screen has the first two.
\<close>

definition isLastQuestion :: "ExamState \<Rightarrow> bool" where
  "isLastQuestion state \<longleftrightarrow>
     currentQuestionIndex state = int (length (questions state)) - 1"

definition practiceQuizScreen_onNavigate :: "ExamState \<Rightarrow> int list" where
  "practiceQuizScreen_onNavigate state =
     (if currentQuestionIndex state = 0 then [] else [currentQuestionIndex state - 1]) @
     (if isLastQuestion state then [] else [currentQuestionIndex state + 1])"

definition examScreen_onNavigate :: "ExamState \<Rightarrow> int list" where
  "examScreen_onNavigate state =
     practiceQuizScreen_onNavigate state @ map int [0..<length (questions state)]"

section \<open>Results screen (ResultsScreen.tsx)\<close>

text \<open>
  \<^verbatim>\<open>Math.round((correctCount / totalQuestions) * 100)\<close>. A JavaScript number is a finite
  double, \<^verbatim>\<open>NaN\<close> or an infinity; a finite double is kept as the rational it denotes.
  Division by zero is exact in IEEE 754: \<^verbatim>\<open>0/0\<close> is \<^verbatim>\<open>NaN\<close> and \<^verbatim>\<open>n/0\<close> is an
  infinity with the sign of \<open>n\<close>. Every other quotient and product is the exact result
  rounded to the nearest double, ties to the even significand (\<open>binary64\<close>): 53 bits of
  significand, exponents from -1022 to 1023, subnormals below, an infinity from \<open>2^1024\<close>
  on. The sign of a zero is not kept. The score and the number of questions are integers
  below \<open>2^53\<close> and so are doubles themselves.
\<close>

datatype jsnumber = Fin rat | NaN | PosInfinity | NegInfinity

text \<open>The number of binary digits of a natural number.\<close>

fun bits :: "nat \<Rightarrow> nat" where
  "bits n = (if n = 0 then 0 else Suc (bits (n div 2)))"

declare bits.simps [simp del]

definition pow2 :: "int \<Rightarrow> rat" where
  "pow2 e = (if 0 \<le> e then 2 ^ nat e else 1 / 2 ^ nat (- e))"

text \<open>For \<open>a > 0\<close>, the exponent \<open>e\<close> with \<open>2^e \<le> a < 2^(e+1)\<close>.\<close>

definition floor_log2 :: "rat \<Rightarrow> int" where
  "floor_log2 a =
     (if 1 \<le> a then int (bits (nat \<lfloor>a\<rfloor>)) - 1
      else - int (bits (nat (\<lceil>1 / a\<rceil> - 1))))"

definition round_half_even :: "rat \<Rightarrow> int" where
  "round_half_even y =
     (if y - of_int \<lfloor>y\<rfloor> < 1 / 2 then \<lfloor>y\<rfloor>
      else if 1 / 2 < y - of_int \<lfloor>y\<rfloor> then \<lfloor>y\<rfloor> + 1
      else if even \<lfloor>y\<rfloor> then \<lfloor>y\<rfloor> else \<lfloor>y\<rfloor> + 1)"

definition binary64 :: "rat \<Rightarrow> jsnumber" where
  "binary64 x =
     (if x = 0 then Fin 0
      else
        (let u = pow2 (max (floor_log2 \<bar>x\<bar>) (- 1022) - 52);
             v = of_int (round_half_even (\<bar>x\<bar> / u)) * u
         in if pow2 1024 \<le> v then (if 0 < x then PosInfinity else NegInfinity)
            else Fin (if 0 < x then v else - v)))"

definition js_divide :: "int \<Rightarrow> int \<Rightarrow> jsnumber" where
  "js_divide a b =
     (if b = 0 then (if a = 0 then NaN else if 0 < a then PosInfinity else NegInfinity)
      else binary64 (of_int a / of_int b))"

fun js_times100 :: "jsnumber \<Rightarrow> jsnumber" where
  "js_times100 (Fin x) = binary64 (x * 100)"
| "js_times100 NaN = NaN"
| "js_times100 PosInfinity = PosInfinity"
| "js_times100 NegInfinity = NegInfinity"

text \<open>
  \<^verbatim>\<open>Math.round\<close> gives the nearest integer, a tie going up; on a double this is exact.
\<close>

fun Math_round :: "jsnumber \<Rightarrow> jsnumber" where
  "Math_round (Fin x) = Fin (of_int \<lfloor>x + 1 / 2\<rfloor>)"
| "Math_round NaN = NaN"
| "Math_round PosInfinity = PosInfinity"
| "Math_round NegInfinity = NegInfinity"

definition percentage :: "ExamState \<Rightarrow> jsnumber" where
  "percentage state =
     Math_round (js_times100 (js_divide (score state) (int (length (questions state)))))"

section \<open>Lesson stream parser (ClassesScreen.tsx)\<close>

text \<open>
  A JavaScript string is a sequence of UTF-16 code units, kept as natural numbers so that
  the white space removed by \<^verbatim>\<open>trim\<close> is the set of the language standard (WhiteSpace
  and LineTerminator). \<open>js\<close> turns an ASCII literal into code units.
\<close>

type_synonym jsstring = "nat list"

definition js :: "string \<Rightarrow> jsstring" where
  "js s = map of_char s"

definition isWhiteSpace :: "nat \<Rightarrow> bool" where
  "isWhiteSpace c \<longleftrightarrow>
     c \<in> set [9, 10, 11, 12, 13, 32, 160, 5760, 8192, 8193, 8194, 8195, 8196, 8197, 8198,
              8199, 8200, 8201, 8202, 8232, 8233, 8239, 8287, 12288, 65279]"

definition trim :: "jsstring \<Rightarrow> jsstring" where
  "trim s = rev (dropWhile isWhiteSpace (rev (dropWhile isWhiteSpace s)))"

definition startsWith :: "jsstring \<Rightarrow> jsstring \<Rightarrow> bool" where
  "startsWith s p \<longleftrightarrow> take (length p) s = p"

definition substring :: "nat \<Rightarrow> jsstring \<Rightarrow> jsstring" where
  "substring n s = drop n s"

text \<open>\<^verbatim>\<open>s.split('\n')\<close>: always at least one piece; the separator is code unit 10.\<close>

fun split :: "nat \<Rightarrow> jsstring \<Rightarrow> jsstring list" where
  "split sep [] = [[]]"
| "split sep (c # cs) =
     (if c = sep then [] # split sep cs
      else (case split sep cs of [] \<Rightarrow> [[c]] | l # ls \<Rightarrow> (c # l) # ls))"

text \<open>\<^verbatim>\<open>xs.join('\n')\<close>.\<close>

fun join :: "nat \<Rightarrow> jsstring list \<Rightarrow> jsstring" where
  "join sep [] = []"
| "join sep [x] = x"
| "join sep (x # y # ys) = x @ sep # join sep (y # ys)"

record LessonSection =
  title :: jsstring
  content :: jsstring

text \<open>The three variables of \<^verbatim>\<open>parseMarkdownToSections\<close> that the loop mutates.\<close>

record ParserState =
  sections :: "LessonSection list"
  currentTitle :: jsstring
  currentContent :: "jsstring list"

text \<open>\<^verbatim>\<open>if (currentTitle)\<close>: a string is truthy when it is not empty.\<close>

definition pushSection :: "ParserState \<Rightarrow> ParserState" where
  "pushSection st =
     (if currentTitle st \<noteq> []
      then st\<lparr>sections := sections st @
                [\<lparr>title = currentTitle st, content = trim (join 10 (currentContent st))\<rparr>]\<rparr>
      else st)"

definition isHeader :: "jsstring \<Rightarrow> bool" where
  "isHeader line \<longleftrightarrow> startsWith (trim line) (js ''## '')"

definition parseLine :: "ParserState \<Rightarrow> jsstring \<Rightarrow> ParserState" where
  "parseLine st line =
     (if startsWith (trim line) (js ''## '')
      then (pushSection st)\<lparr>currentTitle := trim (substring 3 (trim line)),
                             currentContent := []\<rparr>
      else if currentTitle st \<noteq> []
      then st\<lparr>currentContent := currentContent st @ [line]\<rparr>
      else st)"

definition parseLines :: "jsstring list \<Rightarrow> LessonSection list" where
  "parseLines lines =
     sections (pushSection
       (foldl parseLine \<lparr>sections = [], currentTitle = [], currentContent = []\<rparr> lines))"

definition parseMarkdownToSections :: "jsstring \<Rightarrow> LessonSection list" where
  "parseMarkdownToSections markdown = parseLines (split 10 markdown)"

section \<open>Sample sessions\<close>

text \<open>Concrete inputs for the closed instances stated below.\<close>

definition sampleQuestions :: "Question list" where
  "sampleQuestions =
     [\<lparr>qid = ''q1'', qtext = ''First'', options = [''a'', ''b'', ''c'', ''d''],
        correctOptionIndex = 2, explanation = ''e1''\<rparr>,
      \<lparr>qid = ''q2'', qtext = ''Second'', options = [''a'', ''b'', ''c'', ''d''],
        correctOptionIndex = 0, explanation = ''e2''\<rparr>]"

definition sampleConfig :: ExamConfig where
  "sampleConfig =
     \<lparr>subject = ACCOUNTING, level = FOUNDATION, questionCount = 2, durationMinutes = 3,
      topic = None, language = ENGLISH\<rparr>"

text \<open>An exam in progress: two questions, the first answered correctly, two seconds left.\<close>

definition sampleActive :: App where
  "sampleActive =
     \<lparr>mode = EXAM, appLanguage = ENGLISH,
      examState = \<lparr>status = Active, questions = sampleQuestions, currentQuestionIndex = 0,
        answers = [0 \<mapsto> 2], flagged = Map.empty, startTime = Some 0, timeRemaining = 2,
        score = 0, error = None\<rparr>,
      config = Some sampleConfig\<rparr>"

text \<open>The same exam after submission.\<close>

definition sampleFinished :: App where
  "sampleFinished =
     \<lparr>mode = EXAM, appLanguage = ENGLISH,
      examState = \<lparr>status = Finished, questions = sampleQuestions, currentQuestionIndex = 0,
        answers = [0 \<mapsto> 2], flagged = Map.empty, startTime = Some 0, timeRemaining = 2,
        score = 1, error = None\<rparr>,
      config = Some sampleConfig\<rparr>"

text \<open>A finished session whose question list is empty.\<close>

definition sampleEmptyFinished :: ExamState where
  "sampleEmptyFinished =
     \<lparr>status = Finished, questions = [], currentQuestionIndex = 0, answers = Map.empty,
      flagged = Map.empty, startTime = Some 0, timeRemaining = 180, score = 0,
      error = None\<rparr>"

section \<open>Scoring\<close>

lemma forEach_score_filter:
  "forEach_score ans qs idx sc =
     sc + int (length (filter (\<lambda>i. ans (idx + int i) = Some (correctOptionIndex (qs ! i)))
                        [0..<length qs]))"
proof (induction qs arbitrary: idx sc)
  case Nil
  show ?case by simp
next
  case (Cons q qs)
  have shift: "[0..<length (q # qs)] = 0 # map Suc [0..<length qs]"
    by (simp add: upt_conv_Cons map_Suc_upt del: upt_Suc)
  have "filter (\<lambda>i. ans (idx + int i) = Some (correctOptionIndex ((q # qs) ! i)))
          (map Suc [0..<length qs])
        = map Suc (filter (\<lambda>i. ans (idx + 1 + int i) = Some (correctOptionIndex (qs ! i)))
                     [0..<length qs])"
    by (simp add: filter_map comp_def add.assoc)
  then show ?case
    unfolding shift by (simp add: Cons.IH)
qed

lemma card_filter_upt:
  "card {i. i < n \<and> P i} = length (filter P [0..<n])"
proof -
  have "{i. i < n \<and> P i} = set (filter P [0..<n])" by auto
  moreover have "distinct (filter P [0..<n])" by simp
  ultimately show ?thesis by (simp only: distinct_card)
qed

lemma calculateScore_card:
  "calculateScore s =
     int (card {i. i < length (questions s) \<and>
                   answers s (int i) = Some (correctOptionIndex (questions s ! i))})"
  by (simp add: calculateScore_def forEach_score_filter card_filter_upt)

text \<open>
  C1. When \<^verbatim>\<open>handleSubmit\<close> moves the session to \<^verbatim>\<open>finished\<close>, the score is the number
  of indices \<open>i\<close> in \<open>[0, len(questions))\<close> with \<open>answers[i] = questions[i].correctOptionIndex\<close>;
  an index with no entry in \<open>answers\<close> is never among the counted ones.
\<close>

theorem handleSubmit_score_counts_correct_answers:
  "status (examState (handleSubmit a)) = Finished \<and>
   score (examState (handleSubmit a)) =
     int (card {i. i < length (questions (examState a)) \<and>
                   answers (examState a) (int i) =
                     Some (correctOptionIndex (questions (examState a) ! i))}) \<and>
   (\<forall>i. answers (examState a) (int i) = None \<longrightarrow>
        i \<notin> {i. i < length (questions (examState a)) \<and>
                  answers (examState a) (int i) =
                    Some (correctOptionIndex (questions (examState a) ! i))})"
  by (simp add: handleSubmit_def setExamState_def calculateScore_card)

theorem handleSubmit_score_witness:
  "answers (examState sampleActive) (int 1) = None \<and>
   score (examState (handleSubmit sampleActive)) = 1"
  using handleSubmit_score_counts_correct_answers [of sampleActive]
  by (simp add: handleSubmit_def setExamState_def sampleActive_def calculateScore_def
      sampleQuestions_def)

section \<open>Timer\<close>

lemma calculateScore_timeRemaining [simp]:
  "calculateScore (s\<lparr>timeRemaining := t\<rparr>) = calculateScore s"
  by (simp add: calculateScore_def)

lemma tick_inactive: "status (examState a) \<noteq> Active \<Longrightarrow> tick a = a"
  by (simp add: tick_def timerInstalled_def)

lemma timerUpdater_nonneg: "0 \<le> timeRemaining (timerUpdater s)"
  by (simp add: timerUpdater_def)

lemma tick_nonneg:
  "0 \<le> timeRemaining (examState a) \<Longrightarrow> 0 \<le> timeRemaining (examState (tick a))"
  by (simp add: tick_def setExamState_def timerUpdater_nonneg)

lemma tick_funpow_nonneg:
  "0 \<le> timeRemaining (examState a) \<Longrightarrow> 0 \<le> timeRemaining (examState ((tick ^^ k) a))"
  by (induction k) (simp_all add: tick_nonneg)

lemma tick_run:
  assumes "status (examState a) = Active" and "0 < timeRemaining (examState a)"
  shows "(tick ^^ k) a =
     (if int k < timeRemaining (examState a)
      then setExamState (\<lambda>s. s\<lparr>timeRemaining := timeRemaining s - int k\<rparr>) a
      else setExamState (\<lambda>s. s\<lparr>timeRemaining := 0\<rparr>) (handleSubmit a))"
proof (induction k)
  case 0
  with assms show ?case by (simp add: setExamState_def)
next
  case (Suc k)
  show ?case
  proof (cases "int k < timeRemaining (examState a)")
    case True
    with Suc assms show ?thesis
      by (simp add: tick_def timerInstalled_def timerUpdater_def setExamState_def handleSubmit_def)
  next
    case False
    with Suc assms show ?thesis
      by (simp add: tick_def timerInstalled_def setExamState_def handleSubmit_def)
  qed
qed

lemma tick_status_run:
  assumes "status (examState a) = Active" and "0 < timeRemaining (examState a)"
  shows "status (examState ((tick ^^ k) a)) =
           (if int k < timeRemaining (examState a) then Active else Finished)"
  using assms by (simp add: tick_run setExamState_def handleSubmit_def)

lemma tick_single_transition:
  assumes "status (examState a) = Active" and "0 < timeRemaining (examState a)"
  shows "\<exists>!k. status (examState ((tick ^^ k) a)) = Active \<and>
              status (examState ((tick ^^ Suc k) a)) = Finished"
proof -
  have "\<And>k. (status (examState ((tick ^^ k) a)) = Active \<and>
              status (examState ((tick ^^ Suc k) a)) = Finished)
            \<longleftrightarrow> k = nat (timeRemaining (examState a) - 1)"
    using assms unfolding tick_status_run [OF assms] by (auto split: if_splits)
  then show ?thesis by simp
qed

text \<open>
  C2. Ticks never make \<open>timeRemaining\<close> negative. From an active state with \<open>n > 0\<close>
  seconds left, \<open>k < n\<close> ticks only lower the clock by \<open>k\<close>, and from the \<open>n\<close>-th tick on
  the state is the one \<^verbatim>\<open>handleSubmit\<close> yields with the clock at zero: the tick that reaches
  zero scores with \<^const>\<open>calculateScore\<close> exactly as an explicit submit does, there is exactly
  one tick at which the status goes from active to finished, and a tick leaves every state
  that is not active as it is.
\<close>

theorem timer_tick_auto_submit:
  "(0 \<le> timeRemaining (examState a) \<longrightarrow>
      0 \<le> timeRemaining (examState ((tick ^^ k) a))) \<and>
   (status (examState a) = Active \<and> 0 < timeRemaining (examState a) \<longrightarrow>
      (tick ^^ k) a =
        (if int k < timeRemaining (examState a)
         then setExamState (\<lambda>s. s\<lparr>timeRemaining := timeRemaining s - int k\<rparr>) a
         else setExamState (\<lambda>s. s\<lparr>timeRemaining := 0\<rparr>) (handleSubmit a)) \<and>
      (timeRemaining (examState (tick a)) = 0 \<longrightarrow>
         tick a = setExamState (\<lambda>s. s\<lparr>timeRemaining := 0\<rparr>) (handleSubmit a)) \<and>
      (\<exists>!j. status (examState ((tick ^^ j) a)) = Active \<and>
            status (examState ((tick ^^ Suc j) a)) = Finished)) \<and>
   (status (examState a) \<noteq> Active \<longrightarrow> tick a = a)"
proof (intro conjI impI)
  assume "0 \<le> timeRemaining (examState a)"
  then show "0 \<le> timeRemaining (examState ((tick ^^ k) a))" by (rule tick_funpow_nonneg)
next
  assume h: "status (examState a) = Active \<and> 0 < timeRemaining (examState a)"
  then show "(tick ^^ k) a =
        (if int k < timeRemaining (examState a)
         then setExamState (\<lambda>s. s\<lparr>timeRemaining := timeRemaining s - int k\<rparr>) a
         else setExamState (\<lambda>s. s\<lparr>timeRemaining := 0\<rparr>) (handleSubmit a))"
    by (simp add: tick_run)
next
  assume h: "status (examState a) = Active \<and> 0 < timeRemaining (examState a)"
    and z: "timeRemaining (examState (tick a)) = 0"
  from h z show "tick a = setExamState (\<lambda>s. s\<lparr>timeRemaining := 0\<rparr>) (handleSubmit a)"
    by (simp add: tick_def timerInstalled_def timerUpdater_def setExamState_def
        handleSubmit_def split: if_splits)
next
  assume h: "status (examState a) = Active \<and> 0 < timeRemaining (examState a)"
  then show "\<exists>!j. status (examState ((tick ^^ j) a)) = Active \<and>
            status (examState ((tick ^^ Suc j) a)) = Finished"
    using tick_single_transition [of a] by blast
next
  assume "status (examState a) \<noteq> Active"
  then show "tick a = a" by (rule tick_inactive)
qed

theorem timer_tick_auto_submit_witness:
  "0 \<le> timeRemaining (examState sampleActive) \<and>
   status (examState sampleActive) = Active \<and> 0 < timeRemaining (examState sampleActive) \<and>
   0 \<le> timeRemaining (examState ((tick ^^ 2) sampleActive)) \<and>
   (tick ^^ 2) sampleActive =
      sampleFinished\<lparr>examState := (examState sampleFinished)\<lparr>timeRemaining := 0\<rparr>\<rparr> \<and>
   status (examState sampleFinished) \<noteq> Active \<and> tick sampleFinished = sampleFinished"
  using timer_tick_auto_submit [of sampleActive 2] timer_tick_auto_submit [of sampleFinished 0]
  by (simp add: sampleActive_def sampleFinished_def setExamState_def handleSubmit_def
      calculateScore_def sampleQuestions_def)

section \<open>Handlers in a finished session\<close>

text \<open>
  C3, as stated, fails: in a finished session \<^verbatim>\<open>handleAnswer\<close> still writes to
  \<open>answers\<close>.
\<close>

theorem finished_handleAnswer_changes_answers:
  "status (examState sampleFinished) = Finished \<and>
   answers (examState (handleAnswer 1 3 sampleFinished)) \<noteq> answers (examState sampleFinished)"
proof -
  have "answers (examState (handleAnswer 1 3 sampleFinished)) 1 = Some 3"
    by (simp add: handleAnswer_def setExamState_def)
  moreover have "answers (examState sampleFinished) 1 = None"
    by (simp add: sampleFinished_def)
  ultimately have "answers (examState (handleAnswer 1 3 sampleFinished)) \<noteq>
      answers (examState sampleFinished)"
    by (metis option.distinct(1))
  then show ?thesis by (simp add: sampleFinished_def)
qed

lemma handleSubmit_idem: "handleSubmit (handleSubmit a) = handleSubmit a"
  by (simp add: handleSubmit_def setExamState_def calculateScore_def)

text \<open>
  C3, amended. In a finished session the rendered screen receives none of
  \<^verbatim>\<open>handleAnswer\<close>, \<^verbatim>\<open>handleFlag\<close> and \<^verbatim>\<open>handleSubmit\<close>, so the views cannot invoke
  them. The handlers themselves do not look at the status: \<^verbatim>\<open>handleAnswer\<close> changes only
  \<open>answers\<close>, \<^verbatim>\<open>handleFlag\<close> changes only \<open>flagged\<close>, and \<^verbatim>\<open>handleSubmit\<close> changes only
  \<open>score\<close>, which it recomputes; submitting twice is the same as submitting once, and
  submit changes nothing when the score already is the computed one.
\<close>

theorem finished_handlers_unguarded_but_not_wired:
  "status (examState a) = Finished \<longrightarrow>
     OnAnswer \<notin> set (props (renderContent a)) \<and>
     OnFlag \<notin> set (props (renderContent a)) \<and>
     OnSubmit \<notin> set (props (renderContent a)) \<and>
     examState (handleAnswer qi oi a) =
       (examState a)\<lparr>answers := (answers (examState a))(qi \<mapsto> oi)\<rparr> \<and>
     examState (handleFlag qi a) =
       (examState a)\<lparr>flagged := (flagged (examState a))(qi \<mapsto>
          (case flagged (examState a) qi of None \<Rightarrow> True | Some b \<Rightarrow> \<not> b))\<rparr> \<and>
     examState (handleSubmit a) = (examState a)\<lparr>score := calculateScore (examState a)\<rparr> \<and>
     handleSubmit (handleSubmit a) = handleSubmit a \<and>
     (score (examState a) = calculateScore (examState a) \<longrightarrow> handleSubmit a = a)"
  by (auto simp: handleAnswer_def handleFlag_def handleSubmit_def setExamState_def
      renderContent_def calculateScore_def)

theorem finished_handlers_witness:
  "status (examState sampleFinished) = Finished \<and>
   props (renderContent sampleFinished) = [OnRestart] \<and>
   score (examState sampleFinished) = calculateScore (examState sampleFinished) \<and>
   handleSubmit sampleFinished = sampleFinished \<and>
   questions (examState (handleAnswer 1 3 sampleFinished)) = sampleQuestions \<and>
   score (examState (handleAnswer 1 3 sampleFinished)) = 1 \<and>
   answers (examState (handleFlag 1 sampleFinished)) = [0 \<mapsto> 2]"
  using finished_handlers_unguarded_but_not_wired [of sampleFinished 1 3]
  by (simp add: sampleFinished_def renderContent_def calculateScore_def sampleQuestions_def)

section \<open>Navigation\<close>

text \<open>
  C4, as stated, fails: with two questions, navigating to index 5 moves the current index
  to 5.
\<close>

theorem handleNavigate_out_of_range_counterexample:
  "\<not> (0 \<le> (5::int) \<and> 5 < int (length (questions (examState sampleActive)))) \<and>
   currentQuestionIndex (examState (handleNavigate 5 sampleActive)) \<noteq>
     currentQuestionIndex (examState sampleActive)"
  by (simp add: handleNavigate_def setExamState_def sampleActive_def sampleQuestions_def)

lemma onNavigate_range:
  assumes "0 \<le> c" and "c < int n"
    and "j \<in> set ((if c = 0 then [] else [c - 1]) @ (if c = int n - 1 then [] else [c + 1])
                  @ map int [0..<n])"
  shows "0 \<le> j \<and> j < int n"
  using assms by (auto split: if_splits)

lemma examScreen_onNavigate_range:
  assumes "0 \<le> currentQuestionIndex s" and "currentQuestionIndex s < int (length (questions s))"
    and "j \<in> set (examScreen_onNavigate s)"
  shows "0 \<le> j \<and> j < int (length (questions s))"
  using onNavigate_range [of "currentQuestionIndex s" "length (questions s)" j] assms
  by (simp only: examScreen_onNavigate_def practiceQuizScreen_onNavigate_def
      isLastQuestion_def append_assoc)

lemma practiceQuizScreen_onNavigate_subset:
  "set (practiceQuizScreen_onNavigate s) \<subseteq> set (examScreen_onNavigate s)"
  by (simp add: examScreen_onNavigate_def)

text \<open>
  C4, amended. \<^verbatim>\<open>handleNavigate\<close> sets the current index to the requested index, whatever
  it is, and changes nothing else. The range is kept by the views: when the current index
  is in \<open>[0, len(questions))\<close>, every index the exam screen or the practice screen can
  request is in that range too.
\<close>

theorem handleNavigate_sets_index:
  "handleNavigate i a = a\<lparr>examState := (examState a)\<lparr>currentQuestionIndex := i\<rparr>\<rparr> \<and>
   currentQuestionIndex (examState (handleNavigate i a)) = i \<and>
   (0 \<le> currentQuestionIndex (examState a) \<and>
    currentQuestionIndex (examState a) < int (length (questions (examState a))) \<longrightarrow>
      (\<forall>j \<in> set (examScreen_onNavigate (examState a)) \<union>
               set (practiceQuizScreen_onNavigate (examState a)).
          0 \<le> j \<and> j < int (length (questions (examState a)))))"
proof -
  have "set (examScreen_onNavigate (examState a)) \<union>
          set (practiceQuizScreen_onNavigate (examState a)) =
        set (examScreen_onNavigate (examState a))"
    using practiceQuizScreen_onNavigate_subset [of "examState a"] by blast
  then show ?thesis
    using examScreen_onNavigate_range [of "examState a"]
    by (simp add: handleNavigate_def setExamState_def)
qed

theorem handleNavigate_sets_index_witness:
  "0 \<le> currentQuestionIndex (examState sampleActive) \<and>
   currentQuestionIndex (examState sampleActive) <
     int (length (questions (examState sampleActive))) \<and>
   examScreen_onNavigate (examState sampleActive) = [1, 0, 1] \<and>
   practiceQuizScreen_onNavigate (examState sampleActive) = [1] \<and>
   (1::int) < int (length (questions (examState sampleActive))) \<and>
   currentQuestionIndex (examState (handleNavigate 1 sampleActive)) = 1"
  using handleNavigate_sets_index [of 1 sampleActive]
  by (simp add: sampleActive_def sampleQuestions_def examScreen_onNavigate_def
      practiceQuizScreen_onNavigate_def isLastQuestion_def)

section \<open>Generation failure and restart\<close>

text \<open>
  C5, as stated, fails: when a generation started after a finished exam fails, that exam's
  questions and answers are still in the state.
\<close>

theorem generation_failure_keeps_questions:
  "status (examState (startQuizGeneration_begin sampleConfig PRACTICE
      (sampleFinished\<lparr>mode := CLASSES\<rparr>))) = Loading \<and>
   questions (examState (startQuizGeneration_settle sampleConfig (Inl ''network'') 0
      (startQuizGeneration_begin sampleConfig PRACTICE (sampleFinished\<lparr>mode := CLASSES\<rparr>))))
     = sampleQuestions \<and>
   sampleQuestions \<noteq> [] \<and>
   answers (examState (startQuizGeneration_settle sampleConfig (Inl ''network'') 0
      (startQuizGeneration_begin sampleConfig PRACTICE (sampleFinished\<lparr>mode := CLASSES\<rparr>))))
     0 = Some 2 \<and>
   examState (startQuizGeneration_settle sampleConfig (Inl ''network'') 0
      (startQuizGeneration_begin sampleConfig PRACTICE (sampleFinished\<lparr>mode := CLASSES\<rparr>)))
     \<noteq> initialState\<lparr>error := Some ''Failed to generate exam. Please try again.''\<rparr>"
  by (simp add: startQuizGeneration_begin_def startQuizGeneration_settle_def setExamState_def
      sampleFinished_def sampleQuestions_def initialState_def)

text \<open>
  C5, amended. Let \<open>a\<close> be the state when the failure arrives, whatever ran during the
  wait. The failure sets the status to idle and the error message and leaves every other
  field of the session, the mode and the configuration as they are in \<open>a\<close>: nothing is
  reset. If \<open>a\<close> holds no questions, answers or flags, the result holds none; if the
  session in \<open>a\<close> is the initial one with status loading, the result is the initial session
  with the error message. A generation that succeeds replaces the session by the initial
  one with status active, the new questions, the time and the start time, whatever the
  state was.
\<close>

theorem generation_failure_state:
  "examState (startQuizGeneration_settle newConfig (Inl e) now a) =
     (examState a)\<lparr>status := Idle,
        error := Some ''Failed to generate exam. Please try again.''\<rparr> \<and>
   mode (startQuizGeneration_settle newConfig (Inl e) now a) = mode a \<and>
   config (startQuizGeneration_settle newConfig (Inl e) now a) = config a \<and>
   (questions (examState a) = [] \<and> answers (examState a) = Map.empty \<and>
    flagged (examState a) = Map.empty \<longrightarrow>
      questions (examState (startQuizGeneration_settle newConfig (Inl e) now a)) = [] \<and>
      answers (examState (startQuizGeneration_settle newConfig (Inl e) now a)) = Map.empty \<and>
      flagged (examState (startQuizGeneration_settle newConfig (Inl e) now a)) = Map.empty) \<and>
   (examState a = initialState\<lparr>status := Loading\<rparr> \<longrightarrow>
      examState (startQuizGeneration_settle newConfig (Inl e) now a) =
        initialState\<lparr>error := Some ''Failed to generate exam. Please try again.''\<rparr>) \<and>
   examState (startQuizGeneration_settle newConfig' (Inr qs) now' b) =
     initialState\<lparr>status := Active, questions := qs,
        timeRemaining := durationMinutes newConfig' * 60, startTime := Some now'\<rparr>"
  by (simp add: startQuizGeneration_settle_def setExamState_def initialState_def)

theorem generation_failure_state_witness:
  "examState (startQuizGeneration_begin sampleConfig EXAM initialApp) =
     initialState\<lparr>status := Loading\<rparr> \<and>
   questions (examState (startQuizGeneration_begin sampleConfig EXAM initialApp)) = [] \<and>
   answers (examState (startQuizGeneration_begin sampleConfig EXAM initialApp)) = Map.empty \<and>
   flagged (examState (startQuizGeneration_begin sampleConfig EXAM initialApp)) = Map.empty \<and>
   examState (startQuizGeneration_settle sampleConfig (Inl ''network'') 0
      (startQuizGeneration_begin sampleConfig EXAM initialApp)) =
     initialState\<lparr>error := Some ''Failed to generate exam. Please try again.''\<rparr> \<and>
   questions (examState (startQuizGeneration_settle sampleConfig (Inl ''network'') 0
      (startQuizGeneration_begin sampleConfig EXAM initialApp))) = []"
  using generation_failure_state [of sampleConfig "''network''" 0
      "startQuizGeneration_begin sampleConfig EXAM initialApp"]
  by (simp add: startQuizGeneration_begin_def setExamState_def initialApp_def initialState_def)

text \<open>
  C6. \<^verbatim>\<open>handleRestart\<close> yields the initial session whatever the prior state: status idle,
  no questions, empty answers and flags, index 0, no time, score 0.
\<close>

theorem handleRestart_initial:
  "examState (handleRestart a) = initialState \<and>
   examState (handleRestart a) =
     \<lparr>status = Idle, questions = [], currentQuestionIndex = 0, answers = Map.empty,
      flagged = Map.empty, startTime = None, timeRemaining = 0, score = 0, error = None\<rparr> \<and>
   config (handleRestart a) = None \<and>
   examState (handleRestart (handleRestart a)) = examState (handleRestart a)"
  by (simp add: handleRestart_def initialState_def)

section \<open>Percentage\<close>

lemma bits_0: "bits 0 = 0"
  by (simp add: bits.simps)

lemma bits_1: "bits (Suc 0) = Suc 0"
  by (simp add: bits.simps [of "Suc 0"] bits_0)

lemma bits_numeral: "bits (numeral k) = Suc (bits (numeral k div 2))"
  by (subst bits.simps) simp

lemma floor_rat_numeral: "\<lfloor>(numeral a / numeral b :: rat)\<rfloor> = numeral a div numeral b"
  by (metis floor_divide_of_int_eq of_int_numeral)

lemma ceiling_rat_numeral:
  "\<lceil>(numeral a / numeral b :: rat)\<rceil> = - (- numeral a div numeral b)"
  by (metis ceiling_def divide_minus_left floor_divide_of_int_eq of_int_minus of_int_numeral)

lemmas binary64_eval = bits_0 bits_1 bits_numeral floor_rat_numeral ceiling_rat_numeral
  pow2_def floor_log2_def round_half_even_def binary64_def js_divide_def Let_def

text \<open>
  \<open>floor_log2\<close> finds the binade of a positive number, and \<open>binary64\<close> returns a multiple
  of the spacing of doubles in that binade that is at most half a spacing from its argument.
\<close>

lemma bits_upper: "n < 2 ^ bits n"
proof (induction n rule: bits.induct)
  case (1 n)
  show ?case
  proof (cases "n = 0")
    case True
    then show ?thesis by (simp add: bits_0)
  next
    case False
    with 1 have "n div 2 < 2 ^ bits (n div 2)" by simp
    moreover have "bits n = Suc (bits (n div 2))"
      using False by (subst bits.simps) simp
    ultimately show ?thesis by simp
  qed
qed

lemma bits_lower: "0 < n \<Longrightarrow> 2 ^ (bits n - 1) \<le> n"
proof (induction n rule: bits.induct)
  case (1 n)
  then have n: "n \<noteq> 0" by simp
  have b: "bits n = Suc (bits (n div 2))"
    using n by (subst bits.simps) simp
  show ?case
  proof (cases "n div 2 = 0")
    case True
    then show ?thesis using 1 by (simp add: b bits_0)
  next
    case False
    then have "2 ^ (bits (n div 2) - 1) \<le> n div 2" using 1 n by simp
    moreover have "bits (n div 2) \<noteq> 0"
      using False by (subst bits.simps) simp
    then have "(2::nat) ^ bits (n div 2) = 2 * 2 ^ (bits (n div 2) - 1)"
      by (cases "bits (n div 2)") simp_all
    ultimately show ?thesis by (simp add: b)
  qed
qed

lemma floor_log2_bounds:
  assumes "0 < a"
  shows "pow2 (floor_log2 a) \<le> a \<and> a < pow2 (floor_log2 a + 1)"
proof (cases "1 \<le> a")
  case True
  define n where "n = nat \<lfloor>a\<rfloor>"
  have n1: "0 < n" using True by (simp add: n_def)
  have na: "rat_of_nat n \<le> a" using True by (simp add: n_def)
  have an: "a < rat_of_nat n + 1" using True by (simp add: n_def) linarith
  have bn: "0 < bits n" using n1 by (subst bits.simps) simp
  have e: "floor_log2 a = int (bits n) - 1" using True by (simp add: floor_log2_def n_def)
  have "rat_of_nat (2 ^ (bits n - 1)) \<le> rat_of_nat n"
    using bits_lower [OF n1] by (rule of_nat_mono)
  then have "(2::rat) ^ (bits n - 1) \<le> rat_of_nat n" by (simp only: of_nat_power of_nat_numeral)
  then have lo: "(2::rat) ^ (bits n - 1) \<le> a" using na by (rule order_trans)
  have "n + 1 \<le> 2 ^ bits n" using bits_upper [of n] by simp
  then have "rat_of_nat (n + 1) \<le> rat_of_nat (2 ^ bits n)" by (rule of_nat_mono)
  then have "rat_of_nat n + 1 \<le> (2::rat) ^ bits n"
    by (simp only: of_nat_power of_nat_numeral of_nat_add of_nat_1)
  with an have hi: "a < (2::rat) ^ bits n" by (rule less_le_trans)
  have "nat (int (bits n) - 1) = bits n - 1" by simp
  then show ?thesis using lo hi bn by (simp add: e pow2_def)
next
  case False
  then have a1: "a < 1" by simp
  define c where "c = \<lceil>1 / a\<rceil>"
  define m where "m = nat (c - 1)"
  have inv: "1 < 1 / a" using assms a1 by simp
  then have "rat_of_int 1 < 1 / a" by simp
  then have "1 < c" unfolding c_def by (simp only: less_ceiling_iff)
  then have m1: "0 < m" and mi: "int m = c - 1" by (simp_all add: m_def)
  have "1 / a \<le> rat_of_int c" unfolding c_def by (rule le_of_int_ceiling)
  also have "rat_of_int c = rat_of_nat m + 1"
    using mi by (metis add.commute diff_add_cancel of_int_add of_int_of_nat_eq of_int_1)
  finally have up: "1 / a \<le> rat_of_nat m + 1" .
  have "rat_of_int c - 1 < 1 / a" unfolding c_def by linarith
  moreover have "rat_of_int c - 1 = rat_of_nat m"
    using mi by (metis of_int_diff of_int_of_nat_eq of_int_1)
  ultimately have lo: "rat_of_nat m < 1 / a" by simp
  have bm: "0 < bits m" using m1 by (subst bits.simps) simp
  have e: "floor_log2 a = - int (bits m)"
    using False by (simp add: floor_log2_def m_def c_def)
  have "m + 1 \<le> 2 ^ bits m" using bits_upper [of m] by simp
  then have "rat_of_nat (m + 1) \<le> rat_of_nat (2 ^ bits m)" by (rule of_nat_mono)
  then have "rat_of_nat m + 1 \<le> (2::rat) ^ bits m"
    by (simp only: of_nat_power of_nat_numeral of_nat_add of_nat_1)
  with up have "1 / a \<le> 2 ^ bits m" by (rule order_trans)
  then have A: "1 / 2 ^ bits m \<le> a"
    using assms by (simp add: field_simps)
  have "rat_of_nat (2 ^ (bits m - 1)) \<le> rat_of_nat m"
    using bits_lower [OF m1] by (rule of_nat_mono)
  then have "(2::rat) ^ (bits m - 1) \<le> rat_of_nat m"
    by (simp only: of_nat_power of_nat_numeral)
  then have "(2::rat) ^ (bits m - 1) < 1 / a" using lo by (rule le_less_trans)
  then have B: "a < 1 / 2 ^ (bits m - 1)"
    using assms by (simp add: field_simps)
  show ?thesis
  proof (cases "bits m = 1")
    case True
    with A B show ?thesis by (simp add: e pow2_def)
  next
    case False
    with bm have "1 < bits m" by simp
    then have "nat (int (bits m) - 1) = bits m - 1" "\<not> (0 \<le> 1 - int (bits m))" by simp_all
    with A B bm show ?thesis by (simp add: e pow2_def)
  qed
qed

lemma round_half_even_nearest: "\<bar>rat_of_int (round_half_even y) - y\<bar> \<le> 1 / 2"
proof -
  have "rat_of_int \<lfloor>y\<rfloor> \<le> y" "y < rat_of_int \<lfloor>y\<rfloor> + 1" by linarith+
  then show ?thesis unfolding round_half_even_def by (auto simp: abs_le_iff)
qed

lemma pow2_pos: "0 < pow2 e"
  by (simp add: pow2_def)

lemma binary64_nearest:
  assumes "binary64 x = Fin v"
  shows "\<exists>m. \<bar>v\<bar> = rat_of_int m * pow2 (max (floor_log2 \<bar>x\<bar>) (- 1022) - 52) \<and> 0 \<le> m \<and>
           \<bar>v - x\<bar> \<le> pow2 (max (floor_log2 \<bar>x\<bar>) (- 1022) - 52) / 2"
proof (cases "x = 0")
  case True
  with assms have "v = 0" by (simp add: binary64_def)
  with True show ?thesis using pow2_pos [of "max (floor_log2 \<bar>x\<bar>) (- 1022) - 52"]
    by (intro exI [of _ 0]) simp
next
  case False
  define u where "u = pow2 (max (floor_log2 \<bar>x\<bar>) (- 1022) - 52)"
  define m where "m = round_half_even (\<bar>x\<bar> / u)"
  have u: "0 < u" unfolding u_def by (rule pow2_pos)
  from assms False have v: "v = (if 0 < x then rat_of_int m * u else - (rat_of_int m * u))"
    by (simp add: binary64_def Let_def u_def m_def split: if_splits)
  have near: "\<bar>rat_of_int m - \<bar>x\<bar> / u\<bar> \<le> 1 / 2"
    unfolding m_def by (rule round_half_even_nearest)
  have m0: "0 \<le> m"
  proof -
    have "0 \<le> \<bar>x\<bar> / u" using u by simp
    with near have "- 1 / 2 \<le> rat_of_int m" by linarith
    then have "rat_of_int (- 1) < rat_of_int m" by simp
    then have "- 1 < m" by (simp only: of_int_less_iff)
    then show ?thesis by simp
  qed
  have "\<bar>rat_of_int m * u - \<bar>x\<bar>\<bar> = \<bar>rat_of_int m - \<bar>x\<bar> / u\<bar> * u"
    using u by (simp add: abs_mult [symmetric] field_simps)
  also have "\<dots> \<le> 1 / 2 * u" using near u by (simp only: mult_right_mono less_imp_le)
  finally have d: "\<bar>rat_of_int m * u - \<bar>x\<bar>\<bar> \<le> u / 2" by simp
  have "\<bar>v\<bar> = rat_of_int m * u" using v m0 u by (simp add: abs_mult)
  moreover have "\<bar>v - x\<bar> \<le> u / 2"
  proof (cases "0 < x")
    case True
    with d v show ?thesis by simp
  next
    case neg: False
    with False have "x < 0" by simp
    then have "\<bar>v - x\<bar> = \<bar>rat_of_int m * u - \<bar>x\<bar>\<bar>" using v by simp
    with d show ?thesis by simp
  qed
  ultimately show ?thesis using m0 unfolding u_def by blast
qed

text \<open>
  The rounding of doubles shows in the percentage: one tenth is not a double, and 23 correct
  answers out of 40 give 57, where the exact quotient 57.5 would round to 58.
\<close>

lemma binary64_one_tenth:
  "binary64 (1 / 10) = Fin (3602879701896397 / 36028797018963968)"
  by (simp add: binary64_eval)

lemma percentage_23_of_40: "Math_round (js_times100 (js_divide 23 40)) = Fin 57"
  by (simp add: binary64_eval)

lemma percentage_1_of_2: "Math_round (js_times100 (js_divide 1 2)) = Fin 50"
  by (simp add: binary64_eval)

text \<open>
  C9, as stated, fails: for a finished session with no questions the percentage is not 0.
\<close>

theorem percentage_zero_questions_counterexample:
  "status sampleEmptyFinished = Finished \<and> questions sampleEmptyFinished = [] \<and>
   percentage sampleEmptyFinished \<noteq> Fin 0"
  by (simp add: sampleEmptyFinished_def percentage_def js_divide_def)

text \<open>
  C9, amended. The results view divides by the number of questions without a guard. With
  no questions the computed score is 0, and the percentage is \<^verbatim>\<open>NaN\<close> when the score is 0
  and never a finite number; it is \<^verbatim>\<open>NaN\<close> after \<^verbatim>\<open>handleSubmit\<close> on a session with no
  questions.
\<close>

theorem percentage_unguarded:
  "(questions s = [] \<longrightarrow>
      calculateScore s = 0 \<and> (score s = 0 \<longrightarrow> percentage s = NaN) \<and>
      (\<forall>x. percentage s \<noteq> Fin x)) \<and>
   (questions (examState a) = [] \<longrightarrow> percentage (examState (handleSubmit a)) = NaN)"
  by (simp add: percentage_def js_divide_def calculateScore_def handleSubmit_def
      setExamState_def)

theorem percentage_unguarded_witness:
  "questions sampleEmptyFinished = [] \<and> score sampleEmptyFinished = 0 \<and>
   calculateScore sampleEmptyFinished = 0 \<and>
   percentage sampleEmptyFinished = NaN \<and>
   questions (examState (sampleActive\<lparr>examState := initialState\<lparr>status := Active\<rparr>\<rparr>)) = [] \<and>
   percentage (examState (handleSubmit
      (sampleActive\<lparr>examState := initialState\<lparr>status := Active\<rparr>\<rparr>))) = NaN"
  using percentage_unguarded [of sampleEmptyFinished
      "sampleActive\<lparr>examState := initialState\<lparr>status := Active\<rparr>\<rparr>"]
  by (simp add: sampleEmptyFinished_def initialState_def)

section \<open>Lesson stream parser: trimming, lines and the fold\<close>

lemma js_header [simp]: "js ''## '' = [35, 35, 32]"
  by (simp add: js_def)

lemma dropWhile_all_or_hd:
  "dropWhile P xs = [] \<or> \<not> P (hd (dropWhile P xs))"
  by (metis hd_dropWhile)

lemma trim_eq_Nil_iff: "trim s = [] \<longleftrightarrow> (\<forall>c \<in> set s. isWhiteSpace c)"
proof
  assume "trim s = []"
  then have "\<forall>c \<in> set (dropWhile isWhiteSpace s). isWhiteSpace c"
    by (simp add: trim_def dropWhile_eq_Nil_conv)
  then have "dropWhile isWhiteSpace s = []"
    using dropWhile_all_or_hd [of isWhiteSpace s] by (metis hd_in_set)
  then show "\<forall>c \<in> set s. isWhiteSpace c"
    by (simp add: dropWhile_eq_Nil_conv)
next
  assume "\<forall>c \<in> set s. isWhiteSpace c"
  then have dw: "dropWhile isWhiteSpace s = []" by simp
  show "trim s = []" unfolding trim_def dw by simp
qed

lemma trim_last: "trim s \<noteq> [] \<Longrightarrow> \<not> isWhiteSpace (last (trim s))"
  unfolding trim_def
  by (metis dropWhile_all_or_hd last_rev rev_is_Nil_conv)

lemma isHeader_decompose:
  assumes "isHeader line"
  shows "trim line = [35, 35, 32] @ substring 3 (trim line)"
    and "substring 3 (trim line) \<noteq> []"
    and "\<not> isWhiteSpace (last (substring 3 (trim line)))"
proof -
  let ?t = "trim line" and ?r = "substring 3 (trim line)"
  from assms have tk: "take 3 ?t = [35, 35, 32]"
    by (simp add: isHeader_def startsWith_def eval_nat_numeral)
  then show eq: "?t = [35, 35, 32] @ ?r"
    unfolding substring_def by (metis append_take_drop_id)
  then have ne: "?t \<noteq> []" by auto
  have nw: "\<not> isWhiteSpace (last ?t)" using ne by (rule trim_last)
  show r: "?r \<noteq> []"
  proof
    assume "?r = []"
    with eq have "?t = [35, 35, 32]" by simp
    with nw show False by (simp add: isWhiteSpace_def)
  qed
  from eq r have "last ?t = last ?r" by (metis last_appendR)
  with nw show "\<not> isWhiteSpace (last ?r)" by simp
qed

lemma header_title_nonempty:
  assumes "isHeader line"
  shows "trim (substring 3 (trim line)) \<noteq> []"
proof -
  from isHeader_decompose(2,3) [OF assms]
  have "\<exists>c \<in> set (substring 3 (trim line)). \<not> isWhiteSpace c"
    by (metis last_in_set)
  then show ?thesis by (simp add: trim_eq_Nil_iff)
qed

lemma parseLine_header:
  "isHeader line \<Longrightarrow>
   parseLine st line =
     (pushSection st)\<lparr>currentTitle := trim (substring 3 (trim line)), currentContent := []\<rparr>"
  by (simp add: parseLine_def isHeader_def)

lemma parseLine_content:
  "\<not> isHeader line \<Longrightarrow>
   parseLine st line =
     (if currentTitle st \<noteq> [] then st\<lparr>currentContent := currentContent st @ [line]\<rparr> else st)"
  by (simp add: parseLine_def isHeader_def)

lemma foldl_parseLine_content:
  "\<forall>l \<in> set body. \<not> isHeader l \<Longrightarrow> currentTitle st \<noteq> [] \<Longrightarrow>
   foldl parseLine st body = st\<lparr>currentContent := currentContent st @ body\<rparr>"
  by (induction body arbitrary: st) (simp_all add: parseLine_content)

lemma foldl_parseLine_skip:
  "\<forall>l \<in> set pre. \<not> isHeader l \<Longrightarrow> currentTitle st = [] \<Longrightarrow> foldl parseLine st pre = st"
  by (induction pre arbitrary: st) (simp_all add: parseLine_content)

lemma pushSection_prepend:
  "pushSection (st\<lparr>sections := xs @ sections st\<rparr>) =
     (pushSection st)\<lparr>sections := xs @ sections (pushSection st)\<rparr>"
  by (simp add: pushSection_def)

lemma parseLine_prepend:
  "parseLine (st\<lparr>sections := xs @ sections st\<rparr>) line =
     (parseLine st line)\<lparr>sections := xs @ sections (parseLine st line)\<rparr>"
  by (simp add: parseLine_def pushSection_def)

lemma foldl_parseLine_prepend:
  "foldl parseLine (st\<lparr>sections := xs @ sections st\<rparr>) ls =
     (foldl parseLine st ls)\<lparr>sections := xs @ sections (foldl parseLine st ls)\<rparr>"
proof (induction ls arbitrary: st)
  case Nil
  show ?case by simp
next
  case (Cons l ls)
  show ?case by (simp add: parseLine_prepend Cons.IH)
qed

lemma parseLines_Nil: "parseLines [] = []"
  by (simp add: parseLines_def pushSection_def)

lemma parseLines_skip:
  assumes "\<forall>l \<in> set pre. \<not> isHeader l"
  shows "parseLines (pre @ rest) = parseLines rest"
  using foldl_parseLine_skip [OF assms, of "\<lparr>sections = [], currentTitle = [], currentContent = []\<rparr>"]
  by (simp add: parseLines_def)

lemma parseLines_header:
  assumes h: "isHeader h"
  shows "parseLines (h # ls) =
     \<lparr>title = trim (substring 3 (trim h)),
      content = trim (join 10 (takeWhile (\<lambda>l. \<not> isHeader l) ls))\<rparr>
     # parseLines (dropWhile (\<lambda>l. \<not> isHeader l) ls)"
proof -
  let ?st0 = "\<lparr>sections = [], currentTitle = [], currentContent = []\<rparr>"
  let ?T = "trim (substring 3 (trim h))"
  let ?body = "takeWhile (\<lambda>l. \<not> isHeader l) ls"
  let ?rest = "dropWhile (\<lambda>l. \<not> isHeader l) ls"
  let ?sec = "\<lparr>title = ?T, content = trim (join 10 ?body)\<rparr>"
  have T: "?T \<noteq> []" using h by (rule header_title_nonempty)
  have st1: "parseLine ?st0 h = \<lparr>sections = [], currentTitle = ?T, currentContent = []\<rparr>"
    using h by (simp add: parseLine_header pushSection_def)
  have body: "\<forall>l \<in> set ?body. \<not> isHeader l"
    by (auto dest: set_takeWhileD)
  have st2: "foldl parseLine ?st0 (h # ?body) =
      \<lparr>sections = [], currentTitle = ?T, currentContent = ?body\<rparr>"
    using foldl_parseLine_content [OF body, of "\<lparr>sections = [], currentTitle = ?T, currentContent = []\<rparr>"] T
    by (simp add: st1)
  have split: "h # ls = (h # ?body) @ ?rest" by simp
  show ?thesis
  proof (cases ?rest)
    case Nil
    then have "foldl parseLine ?st0 (h # ls) =
        \<lparr>sections = [], currentTitle = ?T, currentContent = ?body\<rparr>"
      using st2 split by (metis append_Nil2)
    then have "parseLines (h # ls) =
        sections (pushSection \<lparr>sections = [], currentTitle = ?T, currentContent = ?body\<rparr>)"
      by (simp only: parseLines_def)
    also have "\<dots> = [?sec]" using T by (simp add: pushSection_def)
    finally show ?thesis by (simp only: Nil parseLines_Nil)
  next
    case (Cons h2 rest')
    then have h2: "isHeader h2" by (metis hd_dropWhile list.sel(1) list.distinct(1))
    have "foldl parseLine ?st0 (h # ls) =
        foldl parseLine \<lparr>sections = [], currentTitle = ?T, currentContent = ?body\<rparr> ?rest"
      using st2 split by (metis foldl_append)
    also have "\<dots> = foldl parseLine
        (parseLine \<lparr>sections = [], currentTitle = ?T, currentContent = ?body\<rparr> h2) rest'"
      by (simp add: Cons)
    also have "parseLine \<lparr>sections = [], currentTitle = ?T, currentContent = ?body\<rparr> h2 =
        (parseLine ?st0 h2)\<lparr>sections := [?sec] @ sections (parseLine ?st0 h2)\<rparr>"
      using h2 T by (simp add: parseLine_header pushSection_def)
    finally have f: "foldl parseLine ?st0 (h # ls) =
        foldl parseLine ((parseLine ?st0 h2)\<lparr>sections := [?sec] @ sections (parseLine ?st0 h2)\<rparr>) rest'" .
    have r: "foldl parseLine (parseLine ?st0 h2) rest' = foldl parseLine ?st0 ?rest"
      by (simp only: Cons foldl_Cons)
    have g: "foldl parseLine ?st0 (h # ls) =
        (foldl parseLine ?st0 ?rest)\<lparr>sections := [?sec] @ sections (foldl parseLine ?st0 ?rest)\<rparr>"
      unfolding f r [symmetric] by (rule foldl_parseLine_prepend)
    show ?thesis
      unfolding parseLines_def g pushSection_prepend by simp
  qed
qed

lemma split_not_Nil: "split sep s \<noteq> []"
  by (induction s) (auto split: list.splits)

lemma split_no_sep: "sep \<notin> set x \<Longrightarrow> split sep x = [x]"
  by (induction x) auto

lemma split_append_sep: "sep \<notin> set x \<Longrightarrow> split sep (x @ sep # r) = x # split sep r"
  by (induction x) auto

lemma split_join:
  "ls \<noteq> [] \<Longrightarrow> \<forall>l \<in> set ls. sep \<notin> set l \<Longrightarrow> split sep (join sep ls) = ls"
proof (induction sep ls rule: join.induct)
  case (1 sep)
  then show ?case by simp
next
  case (2 sep x)
  then show ?case by (simp add: split_no_sep)
next
  case (3 sep x y ys)
  then show ?case by (simp add: split_append_sep)
qed

lemma trim_leading: "\<forall>c \<in> set ws. isWhiteSpace c \<Longrightarrow> trim (ws @ s) = trim s"
  by (simp add: trim_def dropWhile_append2)

lemma trim_trailing:
  assumes "\<forall>c \<in> set ws. isWhiteSpace c"
  shows "trim (s @ ws) = trim s"
proof (cases "\<forall>c \<in> set s. isWhiteSpace c")
  case True
  with assms have "\<forall>c \<in> set (s @ ws). isWhiteSpace c" by auto
  then have "trim (s @ ws) = []" by (simp only: trim_eq_Nil_iff)
  moreover from True have "trim s = []" by (simp only: trim_eq_Nil_iff)
  ultimately show ?thesis by simp
next
  case False
  then obtain c where "c \<in> set s" "\<not> isWhiteSpace c" by blast
  then have "dropWhile isWhiteSpace (s @ ws) = dropWhile isWhiteSpace s @ ws"
    by (simp add: dropWhile_append1)
  moreover have "dropWhile isWhiteSpace (rev ws @ rev (dropWhile isWhiteSpace s)) =
      dropWhile isWhiteSpace (rev (dropWhile isWhiteSpace s))"
    by (rule dropWhile_append2) (use assms in simp)
  ultimately show ?thesis by (simp add: trim_def)
qed

lemma isHeader_surrounding_whitespace:
  assumes "\<forall>c \<in> set ws. isWhiteSpace c" and "\<forall>c \<in> set ws'. isWhiteSpace c"
  shows "isHeader (ws @ line @ ws') \<longleftrightarrow> isHeader line"
  using assms by (simp add: isHeader_def trim_leading trim_trailing)

lemma line_trim_decompose:
  "line = takeWhile isWhiteSpace line @ trim line @
     rev (takeWhile isWhiteSpace (rev (dropWhile isWhiteSpace line)))"
proof -
  let ?d = "dropWhile isWhiteSpace line"
  have "rev ?d = takeWhile isWhiteSpace (rev ?d) @ dropWhile isWhiteSpace (rev ?d)"
    by simp
  then have "?d = rev (dropWhile isWhiteSpace (rev ?d)) @ rev (takeWhile isWhiteSpace (rev ?d))"
    by (metis rev_append rev_rev_ident)
  then have "?d = trim line @ rev (takeWhile isWhiteSpace (rev ?d))"
    by (simp add: trim_def)
  moreover have "line = takeWhile isWhiteSpace line @ ?d" by simp
  ultimately show ?thesis by metis
qed

lemma isHeader_iff_marker:
  "isHeader line \<longleftrightarrow>
     (\<exists>ws rest. line = ws @ js ''## '' @ rest \<and> (\<forall>c \<in> set ws. isWhiteSpace c) \<and>
        (\<exists>c \<in> set rest. \<not> isWhiteSpace c))"
proof
  assume h: "isHeader line"
  define r where "r = substring 3 (trim line)"
  define ws where "ws = takeWhile isWhiteSpace line"
  define ws' where "ws' = rev (takeWhile isWhiteSpace (rev (dropWhile isWhiteSpace line)))"
  have e: "trim line = js ''## '' @ r"
    using isHeader_decompose(1) [OF h] by (simp add: r_def)
  have "line = ws @ trim line @ ws'"
    unfolding ws_def ws'_def by (rule line_trim_decompose)
  then have "line = ws @ js ''## '' @ (r @ ws')"
    by (simp only: e append_assoc)
  moreover have "\<forall>c \<in> set ws. isWhiteSpace c"
    unfolding ws_def by (auto dest: set_takeWhileD)
  moreover have "\<exists>c \<in> set (r @ ws'). \<not> isWhiteSpace c"
    using isHeader_decompose(2,3) [OF h] unfolding r_def by (metis last_in_set Un_iff set_append)
  ultimately show "\<exists>ws rest. line = ws @ js ''## '' @ rest \<and>
      (\<forall>c \<in> set ws. isWhiteSpace c) \<and> (\<exists>c \<in> set rest. \<not> isWhiteSpace c)"
    by blast
next
  assume "\<exists>ws rest. line = ws @ js ''## '' @ rest \<and> (\<forall>c \<in> set ws. isWhiteSpace c) \<and>
      (\<exists>c \<in> set rest. \<not> isWhiteSpace c)"
  then obtain ws rest c where line: "line = ws @ js ''## '' @ rest"
    and ws: "\<forall>c \<in> set ws. isWhiteSpace c" and c: "c \<in> set rest" "\<not> isWhiteSpace c"
    by blast
  have "trim line = trim ([35, 35, 32] @ rest)"
    using ws by (simp add: line trim_leading)
  also have "\<dots> = rev (dropWhile isWhiteSpace (rev rest @ [32, 35, 35]))"
    by (simp add: trim_def isWhiteSpace_def)
  also have "dropWhile isWhiteSpace (rev rest @ [32, 35, 35]) =
      dropWhile isWhiteSpace (rev rest) @ [32, 35, 35]"
    using c by (simp add: dropWhile_append1)
  finally have "trim line = [35, 35, 32] @ rev (dropWhile isWhiteSpace (rev rest))"
    by simp
  then show "isHeader line" by (simp add: isHeader_def startsWith_def)
qed

lemma parseLines_drop_preamble:
  "parseLines ls = parseLines (dropWhile (\<lambda>l. \<not> isHeader l) ls)"
proof -
  have "\<forall>l \<in> set (takeWhile (\<lambda>l. \<not> isHeader l) ls). \<not> isHeader l"
    by (auto dest: set_takeWhileD)
  from parseLines_skip [OF this, of "dropWhile (\<lambda>l. \<not> isHeader l) ls"]
  show ?thesis by simp
qed

section \<open>Lesson stream parser: sections produced\<close>



text \<open>
  C8. Lines before the first header do not reach the output: the parser returns the same
  sections with or without them, for lists of lines and for the buffers that join them.
  A buffer none of whose lines is a header parses to the empty list, as a value and not as
  a failure.
\<close>

theorem preamble_dropped:
  "((\<forall>l \<in> set pre. \<not> isHeader l) \<longrightarrow> parseLines (pre @ rest) = parseLines rest) \<and>
   parseMarkdownToSections b = parseLines (dropWhile (\<lambda>l. \<not> isHeader l) (split 10 b)) \<and>
   ((\<forall>l \<in> set (split 10 b). \<not> isHeader l) \<longrightarrow> parseMarkdownToSections b = []) \<and>
   ((\<forall>l \<in> set pre. \<not> isHeader l \<and> 10 \<notin> set l) \<and> (\<forall>l \<in> set rest. 10 \<notin> set l) \<and>
      rest \<noteq> [] \<longrightarrow>
      parseMarkdownToSections (join 10 (pre @ rest)) = parseMarkdownToSections (join 10 rest))"
proof (intro conjI impI)
  assume "\<forall>l \<in> set pre. \<not> isHeader l"
  then show "parseLines (pre @ rest) = parseLines rest" by (rule parseLines_skip)
next
  show "parseMarkdownToSections b = parseLines (dropWhile (\<lambda>l. \<not> isHeader l) (split 10 b))"
    unfolding parseMarkdownToSections_def by (rule parseLines_drop_preamble)
next
  assume "\<forall>l \<in> set (split 10 b). \<not> isHeader l"
  from parseLines_skip [OF this, of "[]"]
  show "parseMarkdownToSections b = []"
    by (simp add: parseMarkdownToSections_def parseLines_Nil)
next
  assume a: "(\<forall>l \<in> set pre. \<not> isHeader l \<and> 10 \<notin> set l) \<and> (\<forall>l \<in> set rest. 10 \<notin> set l) \<and>
      rest \<noteq> []"
  then have "split 10 (join 10 (pre @ rest)) = pre @ rest"
    by (intro split_join) auto
  moreover from a have "split 10 (join 10 rest) = rest"
    by (intro split_join) auto
  moreover from a have "parseLines (pre @ rest) = parseLines rest"
    by (intro parseLines_skip) auto
  ultimately show "parseMarkdownToSections (join 10 (pre @ rest)) =
      parseMarkdownToSections (join 10 rest)"
    by (simp add: parseMarkdownToSections_def)
qed

theorem preamble_dropped_witness:
  "\<not> isHeader (js ''Preface'') \<and> 10 \<notin> set (js ''Preface'') \<and>
   \<not> isHeader (js ''#1 not a header'') \<and> 10 \<notin> set (js ''#1 not a header'') \<and>
   10 \<notin> set (js ''## A'') \<and> 10 \<notin> set (js ''x'') \<and> [js ''## A'', js ''x''] \<noteq> [] \<and>
   parseMarkdownToSections (js ''Preface'' @ [10] @ js ''#1 not a header'' @ [10] @
       js ''## A'' @ [10] @ js ''x'') =
     parseMarkdownToSections (js ''## A'' @ [10] @ js ''x'') \<and>
   split 10 (js ''Preface'' @ [10] @ js ''#1 not a header'') =
     [js ''Preface'', js ''#1 not a header''] \<and>
   parseMarkdownToSections (js ''Preface'' @ [10] @ js ''#1 not a header'') = []"
  using preamble_dropped [of "[js ''Preface'', js ''#1 not a header'']" "[js ''## A'', js ''x'']"
      "js ''Preface'' @ [10] @ js ''#1 not a header''"]
  by (simp add: isHeader_def trim_def startsWith_def js_def isWhiteSpace_def parseLines_Nil)

lemma parse_after_header:
  assumes "10 \<notin> set line"
  shows "parseMarkdownToSections (js ''## A'' @ 10 # line) =
      (if startsWith (trim line) (js ''## '')
       then [\<lparr>title = js ''A'', content = []\<rparr>,
             \<lparr>title = trim (substring 3 (trim line)), content = []\<rparr>]
       else [\<lparr>title = js ''A'', content = trim line\<rparr>])"
proof -
  have hA: "isHeader (js ''## A'')"
    by (simp add: isHeader_def trim_def startsWith_def js_def isWhiteSpace_def)
  have tA: "trim (substring 3 (trim (js ''## A''))) = js ''A''"
    by (simp add: trim_def substring_def js_def isWhiteSpace_def)
  have te: "trim [] = []" by (simp add: trim_def)
  have "split 10 (js ''## A'' @ 10 # line) = [js ''## A'', line]"
    using assms by (simp add: split_append_sep split_no_sep js_def)
  then have p: "parseMarkdownToSections (js ''## A'' @ 10 # line) = parseLines [js ''## A'', line]"
    by (simp add: parseMarkdownToSections_def)
  show ?thesis
  proof (cases "isHeader line")
    case True
    then have "startsWith (trim line) (js ''## '')" unfolding isHeader_def .
    with True show ?thesis
      unfolding p by (simp add: parseLines_header hA tA te parseLines_Nil)
  next
    case False
    then have "\<not> startsWith (trim line) (js ''## '')" unfolding isHeader_def .
    with False show ?thesis
      unfolding p by (simp add: parseLines_header hA tA parseLines_Nil)
  qed
qed

lemma parseLines_Cons:
  "parseLines (line # ls) =
     (if startsWith (trim line) (js ''## '')
      then \<lparr>title = trim (substring 3 (trim line)),
            content = trim (join 10
              (takeWhile (\<lambda>l. \<not> startsWith (trim l) (js ''## '')) ls))\<rparr>
           # parseLines (dropWhile (\<lambda>l. \<not> startsWith (trim l) (js ''## '')) ls)
      else parseLines ls)"
proof (cases "isHeader line")
  case True
  then have "startsWith (trim line) (js ''## '')" unfolding isHeader_def .
  then show ?thesis
    using parseLines_header [OF True, of ls] by (simp only: isHeader_def if_True)
next
  case False
  then have n: "\<not> startsWith (trim line) (js ''## '')" unfolding isHeader_def .
  have "\<forall>l \<in> set [line]. \<not> isHeader l" using False by simp
  from parseLines_skip [OF this, of ls] show ?thesis
    using n by (simp only: append_Cons append_Nil if_False)
qed

lemma parse_first_line:
  assumes "10 \<notin> set line"
  shows "parseMarkdownToSections (line @ 10 # rest) =
      (if startsWith (trim line) (js ''## '')
       then \<lparr>title = trim (substring 3 (trim line)),
             content = trim (join 10
               (takeWhile (\<lambda>l. \<not> startsWith (trim l) (js ''## '')) (split 10 rest)))\<rparr>
            # parseLines (dropWhile (\<lambda>l. \<not> startsWith (trim l) (js ''## ''))
                (split 10 rest))
       else parseMarkdownToSections rest)"
proof -
  have "split 10 (line @ 10 # rest) = line # split 10 rest"
    using assms by (rule split_append_sep)
  then show ?thesis
    unfolding parseMarkdownToSections_def by (simp only: parseLines_Cons)
qed

lemma parse_single_line:
  assumes "10 \<notin> set line"
  shows "parseMarkdownToSections line =
      (if startsWith (trim line) (js ''## '')
       then [\<lparr>title = trim (substring 3 (trim line)), content = []\<rparr>] else [])"
proof -
  have "split 10 line = [line]" using assms by (rule split_no_sep)
  then show ?thesis
    unfolding parseMarkdownToSections_def
    by (simp add: parseLines_Cons parseLines_Nil trim_def)
qed

text \<open>
  C10. A line is a header exactly when its trimmed form starts with \<^verbatim>\<open>"## "\<close>, wherever it
  stands. For every list of lines, a first line that passes the test opens a section with
  the stripped title, whose content is the lines up to the next line passing the test, and
  a first line that fails it is dropped; the same holds for the first line of every buffer
  and for a buffer of one line. While no section is open, a line sets the title exactly
  when it passes the test and otherwise leaves the state as it is. Inside an open section
  a line is appended to the content exactly when it fails the test and a section is emitted
  exactly when it passes. After an opening header, a header line closes the section and
  opens its own, and any other line becomes content. White space around a line does not
  change the test, so an indented header is a header; the test holds exactly for white
  space, then \<^verbatim>\<open>"## "\<close>, then text with a character that is not white space.
  \<^verbatim>\<open>"##Title"\<close> is content.
\<close>

theorem header_test:
  "parseLines (line # ls) =
     (if startsWith (trim line) (js ''## '')
      then \<lparr>title = trim (substring 3 (trim line)),
            content = trim (join 10
              (takeWhile (\<lambda>l. \<not> startsWith (trim l) (js ''## '')) ls))\<rparr>
           # parseLines (dropWhile (\<lambda>l. \<not> startsWith (trim l) (js ''## '')) ls)
      else parseLines ls) \<and>
   (10 \<notin> set line \<longrightarrow>
      parseMarkdownToSections (line @ 10 # rest) =
        (if startsWith (trim line) (js ''## '')
         then \<lparr>title = trim (substring 3 (trim line)),
               content = trim (join 10
                 (takeWhile (\<lambda>l. \<not> startsWith (trim l) (js ''## '')) (split 10 rest)))\<rparr>
              # parseLines (dropWhile (\<lambda>l. \<not> startsWith (trim l) (js ''## ''))
                  (split 10 rest))
         else parseMarkdownToSections rest) \<and>
      parseMarkdownToSections line =
        (if startsWith (trim line) (js ''## '')
         then [\<lparr>title = trim (substring 3 (trim line)), content = []\<rparr>] else []) \<and>
      parseMarkdownToSections (js ''## A'' @ 10 # line) =
        (if startsWith (trim line) (js ''## '')
         then [\<lparr>title = js ''A'', content = []\<rparr>,
               \<lparr>title = trim (substring 3 (trim line)), content = []\<rparr>]
         else [\<lparr>title = js ''A'', content = trim line\<rparr>])) \<and>
   (currentTitle st = [] \<longrightarrow>
      parseLine st line =
        (if startsWith (trim line) (js ''## '')
         then st\<lparr>currentTitle := trim (substring 3 (trim line)), currentContent := []\<rparr>
         else st) \<and>
      (currentTitle (parseLine st line) \<noteq> [] \<longleftrightarrow> startsWith (trim line) (js ''## ''))) \<and>
   (currentTitle st \<noteq> [] \<longrightarrow>
      (currentContent (parseLine st line) = currentContent st @ [line] \<longleftrightarrow>
         \<not> startsWith (trim line) (js ''## '')) \<and>
      (length (sections (parseLine st line)) = Suc (length (sections st)) \<longleftrightarrow>
         startsWith (trim line) (js ''## ''))) \<and>
   ((\<forall>c \<in> set ws. isWhiteSpace c) \<and> (\<forall>c \<in> set ws'. isWhiteSpace c) \<longrightarrow>
      (startsWith (trim (ws @ line @ ws')) (js ''## '') \<longleftrightarrow>
       startsWith (trim line) (js ''## ''))) \<and>
   (startsWith (trim line) (js ''## '') \<longleftrightarrow>
      (\<exists>ws rest. line = ws @ js ''## '' @ rest \<and> (\<forall>c \<in> set ws. isWhiteSpace c) \<and>
         (\<exists>c \<in> set rest. \<not> isWhiteSpace c))) \<and>
   parseMarkdownToSections (js ''  ## T'' @ [10] @ js ''body'') =
     [\<lparr>title = js ''T'', content = js ''body''\<rparr>] \<and>
   parseMarkdownToSections (js ''## A'' @ [10] @ js ''   ## Title'') =
     [\<lparr>title = js ''A'', content = []\<rparr>, \<lparr>title = js ''Title'', content = []\<rparr>] \<and>
   parseMarkdownToSections (js ''## A'' @ [10] @ js ''##Title'') =
     [\<lparr>title = js ''A'', content = js ''##Title''\<rparr>]"
proof (intro conjI)
  show "parseLines (line # ls) =
     (if startsWith (trim line) (js ''## '')
      then \<lparr>title = trim (substring 3 (trim line)),
            content = trim (join 10
              (takeWhile (\<lambda>l. \<not> startsWith (trim l) (js ''## '')) ls))\<rparr>
           # parseLines (dropWhile (\<lambda>l. \<not> startsWith (trim l) (js ''## '')) ls)
      else parseLines ls)"
    by (rule parseLines_Cons)
  show "10 \<notin> set line \<longrightarrow>
      parseMarkdownToSections (line @ 10 # rest) =
        (if startsWith (trim line) (js ''## '')
         then \<lparr>title = trim (substring 3 (trim line)),
               content = trim (join 10
                 (takeWhile (\<lambda>l. \<not> startsWith (trim l) (js ''## '')) (split 10 rest)))\<rparr>
              # parseLines (dropWhile (\<lambda>l. \<not> startsWith (trim l) (js ''## ''))
                  (split 10 rest))
         else parseMarkdownToSections rest) \<and>
      parseMarkdownToSections line =
        (if startsWith (trim line) (js ''## '')
         then [\<lparr>title = trim (substring 3 (trim line)), content = []\<rparr>] else []) \<and>
      parseMarkdownToSections (js ''## A'' @ 10 # line) =
        (if startsWith (trim line) (js ''## '')
         then [\<lparr>title = js ''A'', content = []\<rparr>,
               \<lparr>title = trim (substring 3 (trim line)), content = []\<rparr>]
         else [\<lparr>title = js ''A'', content = trim line\<rparr>])"
    using parse_first_line [of line rest] parse_single_line [of line] parse_after_header [of line]
    by blast
  show "currentTitle st = [] \<longrightarrow>
      parseLine st line =
        (if startsWith (trim line) (js ''## '')
         then st\<lparr>currentTitle := trim (substring 3 (trim line)), currentContent := []\<rparr>
         else st) \<and>
      (currentTitle (parseLine st line) \<noteq> [] \<longleftrightarrow> startsWith (trim line) (js ''## ''))"
    using header_title_nonempty [of line]
    by (auto simp: parseLine_def pushSection_def isHeader_def)
  show "currentTitle st \<noteq> [] \<longrightarrow>
      (currentContent (parseLine st line) = currentContent st @ [line] \<longleftrightarrow>
         \<not> startsWith (trim line) (js ''## '')) \<and>
      (length (sections (parseLine st line)) = Suc (length (sections st)) \<longleftrightarrow>
         startsWith (trim line) (js ''## ''))"
    by (simp add: parseLine_def pushSection_def)
  show "(\<forall>c \<in> set ws. isWhiteSpace c) \<and> (\<forall>c \<in> set ws'. isWhiteSpace c) \<longrightarrow>
      (startsWith (trim (ws @ line @ ws')) (js ''## '') \<longleftrightarrow>
       startsWith (trim line) (js ''## ''))"
    using isHeader_surrounding_whitespace [of ws ws' line] by (simp only: isHeader_def) blast
  show "startsWith (trim line) (js ''## '') \<longleftrightarrow>
      (\<exists>ws rest. line = ws @ js ''## '' @ rest \<and> (\<forall>c \<in> set ws. isWhiteSpace c) \<and>
         (\<exists>c \<in> set rest. \<not> isWhiteSpace c))"
    using isHeader_iff_marker [of line] by (simp only: isHeader_def)
  show "parseMarkdownToSections (js ''  ## T'' @ [10] @ js ''body'') =
     [\<lparr>title = js ''T'', content = js ''body''\<rparr>]"
    by (simp add: parseMarkdownToSections_def parseLines_def parseLine_def pushSection_def
        trim_def startsWith_def substring_def js_def isWhiteSpace_def)
  show "parseMarkdownToSections (js ''## A'' @ [10] @ js ''   ## Title'') =
     [\<lparr>title = js ''A'', content = []\<rparr>, \<lparr>title = js ''Title'', content = []\<rparr>]"
    by (simp add: parseMarkdownToSections_def parseLines_def parseLine_def pushSection_def
        trim_def startsWith_def substring_def js_def isWhiteSpace_def)
  show "parseMarkdownToSections (js ''## A'' @ [10] @ js ''##Title'') =
     [\<lparr>title = js ''A'', content = js ''##Title''\<rparr>]"
    by (simp add: parseMarkdownToSections_def parseLines_def parseLine_def pushSection_def
        trim_def startsWith_def substring_def js_def isWhiteSpace_def)
qed

theorem header_test_witness:
  "10 \<notin> set (js ''  ## T'') \<and> startsWith (trim (js ''  ## T'')) (js ''## '') \<and>
   parseMarkdownToSections (js ''  ## T'' @ 10 # js ''body'') =
     [\<lparr>title = js ''T'', content = js ''body''\<rparr>] \<and>
   parseMarkdownToSections (js ''  ## T'') = [\<lparr>title = js ''T'', content = []\<rparr>] \<and>
   currentTitle \<lparr>sections = [], currentTitle = [], currentContent = []\<rparr> = [] \<and>
   parseLine \<lparr>sections = [], currentTitle = [], currentContent = []\<rparr> (js ''  ## T'') =
     \<lparr>sections = [], currentTitle = js ''T'', currentContent = []\<rparr> \<and>
   10 \<notin> set (js ''## '') \<and> \<not> startsWith (trim (js ''## '')) (js ''## '') \<and>
   parseMarkdownToSections (js ''## A'' @ 10 # js ''## '') =
     [\<lparr>title = js ''A'', content = js ''##''\<rparr>] \<and>
   currentTitle \<lparr>sections = [], currentTitle = js ''A'', currentContent = []\<rparr> \<noteq> [] \<and>
   currentContent (parseLine \<lparr>sections = [], currentTitle = js ''A'', currentContent = []\<rparr>
      (js ''## '')) = [js ''## ''] \<and>
   isWhiteSpace 9 \<and> isWhiteSpace 32 \<and> isWhiteSpace 13 \<and>
   startsWith (trim ([9, 32] @ js ''## T'' @ [13])) (js ''## '')"
  using header_test [of "js ''  ## T''" "[js ''body'']" "js ''body''"
      "\<lparr>sections = [], currentTitle = [], currentContent = []\<rparr>" "[9, 32]" "[13]"]
    header_test [of "js ''## ''" "[]" "[]"
      "\<lparr>sections = [], currentTitle = js ''A'', currentContent = []\<rparr>" "[9, 32]" "[13]"]
    header_test [of "js ''## T''" "[]" "[]"
      "\<lparr>sections = [], currentTitle = js ''A'', currentContent = []\<rparr>" "[9, 32]" "[13]"]
  by (simp add: trim_def startsWith_def substring_def js_def isWhiteSpace_def parseLines_Nil)

end
